theory Spec2Isabelle
  imports Complex_Main "HOL-Library.Sublist" "HOL-Library.Multiset"
begin

section \<open>Data model\<close>

text \<open>
  Instants (Python \<open>datetime\<close> values in UTC) are integers: microseconds since the epoch.
  A Python \<open>str\<close> is a \<open>string\<close>; one \<open>char\<close> stands for one character of the
  \<open>str\<close> (code points below 256), so \<open>length\<close> is Python's \<open>len\<close>.
\<close>

type_synonym datetime = int

text \<open>\<open>app/models/chat.py\<close>: the pydantic models, as records.\<close>

record ChatMessage =
  role :: string
  content :: string
  timestamp :: "datetime option"

record ConversationHistory =
  conversation_id :: string
  messages :: "ChatMessage list"
  created_at :: "datetime option"
  updated_at :: "datetime option"
  message_count :: int

section \<open>Gap analysis (\<open>app/services/gap_analysis.py\<close>)\<close>

text \<open>One entry of the \<open>gaps\<close> list: the dict with keys type, severity, description, suggestion.\<close>

record gap =
  gap_type :: string
  severity :: string
  description :: string
  suggestion :: string

text \<open>The \<open>metrics\<close> dict. \<open>average_message_length\<close> is the exact quotient; Python rounds it
  to the nearest double.\<close>

record metrics =
  total_messages :: nat
  n_user_messages :: nat
  n_ai_messages :: nat
  average_message_length :: rat
  questions_asked :: nat
  metrics_completeness_score :: int

text \<open>The dict returned by \<open>analyze_conversation\<close>; keys absent from a branch are \<open>None\<close>.
  \<open>severity_breakdown\<close> is (high, medium, low).\<close>

record analysis =
  analysis_conversation_id :: string
  status :: string
  gaps :: "gap list"
  suggestions :: "string list"
  completeness_score :: int
  analysis_metrics :: "metrics option"
  gap_count :: "nat option"
  severity_breakdown :: "(nat \<times> nat \<times> nat) option"
  analysis_error :: "string option"

text \<open>\<open>str.lower()\<close> on code points below 256: A-Z and the Latin-1 capitals
  (0xC0-0xDE without the multiplication sign 0xD7) move up by 32.\<close>

definition lower_char :: "char \<Rightarrow> char" where
  "lower_char c =
     (let n = (of_char c :: nat) in
      if (65 \<le> n \<and> n \<le> 90) \<or> (192 \<le> n \<and> n \<le> 222 \<and> n \<noteq> 215)
      then char_of (n + 32) else c)"

definition lower :: "string \<Rightarrow> string" where
  "lower s = map lower_char s"

text \<open>\<open>keyword in text\<close>: the keyword occurs as a contiguous substring.\<close>

fun str_in :: "string \<Rightarrow> string \<Rightarrow> bool" where
  "str_in kw [] = (kw = [])"
| "str_in kw (c # cs) = (prefix kw (c # cs) \<or> str_in kw cs)"

definition detail_keywords :: "string list" where
  "detail_keywords = [''how'', ''why'', ''what'', ''when'', ''where'', ''example'', ''specific'']"

definition action_keywords :: "string list" where
  "action_keywords = [''next'', ''step'', ''action'', ''do'', ''should'', ''recommend'']"

text \<open>\<open>any(keyword in msg.content.lower() for msg in user_messages for keyword in keywords)\<close>\<close>

definition has_keyword :: "string list \<Rightarrow> ChatMessage list \<Rightarrow> bool" where
  "has_keyword keywords user_messages =
     list_ex (\<lambda>msg. list_ex (\<lambda>keyword. str_in keyword (lower (content msg))) keywords) user_messages"

text \<open>\<open>sum(msg.content.count("?") for msg in user_messages)\<close>\<close>

definition question_marks :: "ChatMessage list \<Rightarrow> nat" where
  "question_marks user_messages = sum_list (map (\<lambda>msg. count_list (content msg) CHR ''?'') user_messages)"

text \<open>
  The six rules. Each is one \<open>if\<close> block of the source, acting on the pair of the
  \<open>gaps\<close> list and \<open>completeness_score\<close>: when its condition holds it appends its gap
  and subtracts its penalty.
\<close>

type_synonym gap_state = "gap list \<times> int"

definition trigger :: "bool \<Rightarrow> gap \<Rightarrow> int \<Rightarrow> gap_state \<Rightarrow> gap_state" where
  "trigger cond g penalty st = (if cond then (fst st @ [g], snd st - penalty) else st)"

definition missing_context_gap :: gap where
  "missing_context_gap = \<lparr>gap_type = ''missing_context'', severity = ''medium'',
     description = ''Conversation lacks sufficient context'',
     suggestion = ''Provide more background information or ask follow-up questions''\<rparr>"

definition no_followup_gap :: gap where
  "no_followup_gap = \<lparr>gap_type = ''no_followup'', severity = ''low'',
     description = ''Single exchange without follow-up'',
     suggestion = ''Consider asking follow-up questions to deepen the conversation''\<rparr>"

definition short_responses_gap :: gap where
  "short_responses_gap = \<lparr>gap_type = ''short_responses'', severity = ''low'',
     description = ''Many responses are quite brief'',
     suggestion = ''Ask for more detailed explanations or examples''\<rparr>"

definition missing_details_gap :: gap where
  "missing_details_gap = \<lparr>gap_type = ''missing_details'', severity = ''medium'',
     description = ''Conversation may lack specific details'',
     suggestion = ''Ask specific questions using 'how', 'why', 'what', or request examples''\<rparr>"

definition no_action_items_gap :: gap where
  "no_action_items_gap = \<lparr>gap_type = ''no_action_items'', severity = ''low'',
     description = ''No clear action items or next steps identified'',
     suggestion = ''Ask about next steps or actionable recommendations''\<rparr>"

definition unanswered_questions_gap :: gap where
  "unanswered_questions_gap = \<lparr>gap_type = ''unanswered_questions'', severity = ''high'',
     description = ''More questions asked than answered'',
     suggestion = ''Review responses to ensure all questions are addressed''\<rparr>"

text \<open>Gap 1: \<open>len(user_messages) < 2\<close>.\<close>

definition gap1 :: "ChatMessage list \<Rightarrow> gap_state \<Rightarrow> gap_state" where
  "gap1 user_messages = trigger (length user_messages < 2) missing_context_gap 20"

text \<open>Gap 2: \<open>len(user_messages) == 1 and len(ai_messages) == 1\<close>.\<close>

definition gap2 :: "ChatMessage list \<Rightarrow> ChatMessage list \<Rightarrow> gap_state \<Rightarrow> gap_state" where
  "gap2 user_messages ai_messages =
     trigger (length user_messages = 1 \<and> length ai_messages = 1) no_followup_gap 10"

text \<open>Gap 3: \<open>len(short_responses) > len(ai_messages) * 0.5\<close>; the float product is exact,
  so the test is \<open>2 * len(short_responses) > len(ai_messages)\<close>.\<close>

definition short_responses :: "ChatMessage list \<Rightarrow> ChatMessage list" where
  "short_responses ai_messages = filter (\<lambda>msg. length (content msg) < 50) ai_messages"

definition gap3 :: "ChatMessage list \<Rightarrow> gap_state \<Rightarrow> gap_state" where
  "gap3 ai_messages =
     trigger (2 * length (short_responses ai_messages) > length ai_messages) short_responses_gap 15"

text \<open>Gap 4: \<open>not has_details and len(user_messages) > 2\<close>.\<close>

definition gap4 :: "ChatMessage list \<Rightarrow> gap_state \<Rightarrow> gap_state" where
  "gap4 user_messages =
     trigger (\<not> has_keyword detail_keywords user_messages \<and> length user_messages > 2)
       missing_details_gap 15"

text \<open>Gap 5: \<open>not has_actions and len(user_messages) > 3\<close>.\<close>

definition gap5 :: "ChatMessage list \<Rightarrow> gap_state \<Rightarrow> gap_state" where
  "gap5 user_messages =
     trigger (\<not> has_keyword action_keywords user_messages \<and> length user_messages > 3)
       no_action_items_gap 10"

text \<open>Gap 6: \<open>question_marks > len(ai_messages)\<close>.\<close>

definition gap6 :: "ChatMessage list \<Rightarrow> ChatMessage list \<Rightarrow> gap_state \<Rightarrow> gap_state" where
  "gap6 user_messages ai_messages =
     trigger (question_marks user_messages > length ai_messages) unanswered_questions_gap 25"

text \<open>The state after the first five rules, and after all six, from \<open>gaps = []\<close> and
  \<open>completeness_score = 100\<close>.\<close>

definition user_of :: "ChatMessage list \<Rightarrow> ChatMessage list" where
  "user_of msgs = filter (\<lambda>msg. role msg = ''user'') msgs"

definition ai_of :: "ChatMessage list \<Rightarrow> ChatMessage list" where
  "ai_of msgs = filter (\<lambda>msg. role msg = ''assistant'') msgs"

definition rules_1_to_5 :: "ChatMessage list \<Rightarrow> gap_state" where
  "rules_1_to_5 msgs =
     (let user_messages = user_of msgs; ai_messages = ai_of msgs in
      gap5 user_messages (gap4 user_messages (gap3 ai_messages
        (gap2 user_messages ai_messages (gap1 user_messages ([], 100))))))"

definition apply_rules :: "ChatMessage list \<Rightarrow> gap_state" where
  "apply_rules msgs = gap6 (user_of msgs) (ai_of msgs) (rules_1_to_5 msgs)"

text \<open>The positive suggestion starts with U+2705, written here as its three UTF-8 bytes.\<close>

definition complete_suggestion :: string where
  "complete_suggestion =
     [CHR 0xE2, CHR 0x9C, CHR 0x85] @ '' Conversation appears complete and well-structured''"

definition count_severity :: "string \<Rightarrow> gap list \<Rightarrow> nat" where
  "count_severity sev gs = length (filter (\<lambda>g. severity g = sev) gs)"

text \<open>The body of \<open>analyze_conversation\<close> once the history is fetched.\<close>

definition analyze_history :: "string \<Rightarrow> ConversationHistory \<Rightarrow> analysis" where
  "analyze_history cid history =
     (if messages history = [] then
        \<lparr>analysis_conversation_id = cid, status = ''empty'', gaps = [],
         suggestions = [''Start a conversation to analyze gaps''], completeness_score = 0,
         analysis_metrics = None, gap_count = None, severity_breakdown = None,
         analysis_error = None\<rparr>
      else
        let msgs = messages history;
            user_messages = user_of msgs;
            ai_messages = ai_of msgs;
            st = apply_rules msgs;
            gs = fst st;
            sugg = (if gs = [] then [complete_suggestion] else map suggestion gs);
            m = \<lparr>total_messages = length msgs,
                 n_user_messages = length user_messages,
                 n_ai_messages = length ai_messages,
                 average_message_length =
                   of_nat (sum_list (map (\<lambda>msg. length (content msg)) msgs)) / of_nat (length msgs),
                 questions_asked = question_marks user_messages,
                 metrics_completeness_score = max 0 (snd st)\<rparr>
        in \<lparr>analysis_conversation_id = cid, status = ''analyzed'', gaps = gs,
            suggestions = sugg, completeness_score = metrics_completeness_score m,
            analysis_metrics = Some m, gap_count = Some (length gs),
            severity_breakdown =
              Some (count_severity ''high'' gs, count_severity ''medium'' gs, count_severity ''low'' gs),
            analysis_error = None\<rparr>)"

section \<open>Validators (\<open>app/utils/validators.py\<close>)\<close>

text \<open>The characters of the class \<open>[a-zA-Z0-9_-]\<close>.\<close>

definition id_char :: "char \<Rightarrow> bool" where
  "id_char c \<longleftrightarrow>
     c \<in> set (''abcdefghijklmnopqrstuvwxyz'' @ ''ABCDEFGHIJKLMNOPQRSTUVWXYZ'' @ ''0123456789'' @ ''_-'')"

text \<open>
  \<open>re.match(r'^[a-zA-Z0-9_-]+$', s)\<close>, as a truth value. The match starts at the beginning
  of \<open>s\<close>, takes one or more characters of the class, and \<open>$\<close> (without \<open>re.MULTILINE\<close>)
  holds at the end of the string and also just before a newline that is the last
  character. The class has no newline, so the characters taken are the longest prefix
  of class characters.
\<close>

definition re_match_id :: "string \<Rightarrow> bool" where
  "re_match_id s =
     (let taken = takeWhile id_char s; rest = dropWhile id_char s
      in taken \<noteq> [] \<and> (rest = [] \<or> rest = [CHR 0x0A]))"

definition validate_conversation_id :: "string \<Rightarrow> bool \<times> string option" where
  "validate_conversation_id cid =
     (if cid = [] then (False, Some ''Conversation ID cannot be empty'')
      else if \<not> re_match_id cid then (False, Some ''Conversation ID contains invalid characters'')
      else if length cid > 100 then (False, Some ''Conversation ID is too long'')
      else (True, None))"

text \<open>The format as the specification words it: one or more characters, each of the class
  \<open>[a-zA-Z0-9_-]\<close>, and at most 100 of them.\<close>

definition spec_valid_conversation_id :: "string \<Rightarrow> bool" where
  "spec_valid_conversation_id cid \<longleftrightarrow> cid \<noteq> [] \<and> list_all id_char cid \<and> length cid \<le> 100"

section \<open>Exceptions, the service state and its environment\<close>

text \<open>Every exception of the model is an instance of Python's \<open>Exception\<close>;
  \<open>PyMongoError\<close> stands for the driver's errors (network, timeout, server).\<close>

datatype error =
    RuntimeError string
  | ValidationError string
  | PyMongoError string
  | Exception string

fun str_error :: "error \<Rightarrow> string" where
  "str_error (RuntimeError m) = m"
| "str_error (ValidationError m) = m"
| "str_error (PyMongoError m) = m"
| "str_error (Exception m) = m"

text \<open>One document of the \<open>conversations\<close> collection, with the keys \<open>_store_message\<close>
  writes; no other code of the application writes to the collection.\<close>

record message_doc =
  doc_conversation_id :: string
  user_message :: string
  assistant_message :: string
  doc_timestamp :: datetime
  doc_created_at :: datetime
  message_length :: nat

datatype db_handle = MotorDatabase
datatype collection_handle = MotorCollection string

text \<open>
  The mutable state: \<open>DatabaseService.database\<close>, \<open>ChatService.conversations_collection\<close>,
  the documents of the server's collection in insertion order, and the number of clock
  readings taken so far.
\<close>

record service_state =
  database :: "db_handle option"
  conversations_collection :: "collection_handle option"
  store :: "message_doc list"
  ticks :: nat

text \<open>
  What the outside world does during one call: whether the connection attempt or a
  driver operation raises (and what), what the AI provider answers, the random UUID and
  the clock.
\<close>

record env =
  connect_fault :: "error option"
  insert_fault :: "error option"
  find_fault :: "error option"
  count_fault :: "error option"
  aggregate_fault :: "error option"
  delete_fault :: "error option"
  generate_response :: "string \<Rightarrow> (string \<times> string) list option \<Rightarrow> error + string"
  uuid4_hex :: string
  utc_clock :: "nat \<Rightarrow> datetime"

text \<open>A call is a function from the state to a result (\<open>Inl\<close> the exception raised) and the
  state it leaves.\<close>

type_synonym 'a call = "service_state \<Rightarrow> (error + 'a) \<times> service_state"

definition ret :: "'a \<Rightarrow> 'a call" where
  "ret x s = (Inr x, s)"

definition raise :: "error \<Rightarrow> 'a call" where
  "raise e s = (Inl e, s)"

definition bnd :: "'a call \<Rightarrow> ('a \<Rightarrow> 'b call) \<Rightarrow> 'b call" where
  "bnd m f s = (case m s of (Inl e, s') \<Rightarrow> (Inl e, s') | (Inr x, s') \<Rightarrow> f x s')"

definition try_except :: "'a call \<Rightarrow> (error \<Rightarrow> 'a call) \<Rightarrow> 'a call" where
  "try_except m h s = (case m s of (Inl e, s') \<Rightarrow> h e s' | (Inr x, s') \<Rightarrow> (Inr x, s'))"

section \<open>Database service (\<open>app/services/database.py\<close>)\<close>

text \<open>\<open>connect\<close> returns the cached handle when there is one; otherwise the client is
  built and pinged, which raises or sets \<open>self.database\<close>.\<close>

definition connect :: "env \<Rightarrow> db_handle call" where
  "connect ev s =
     (case database s of
        Some db \<Rightarrow> (Inr db, s)
      | None \<Rightarrow>
          (case connect_fault ev of
             Some e \<Rightarrow> (Inl e, s)
           | None \<Rightarrow> (Inr MotorDatabase, s\<lparr>database := Some MotorDatabase\<rparr>)))"

definition get_database :: "service_state \<Rightarrow> db_handle option" where
  "get_database s = database s"

definition get_collection :: "string \<Rightarrow> collection_handle call" where
  "get_collection name s =
     (if database s = None then (Inl (RuntimeError ''Database not connected''), s)
      else (Inr (MotorCollection name), s))"

section \<open>The driver's operations on the \<open>conversations\<close> collection\<close>

text \<open>
  The operations of the MongoDB driver that the service calls, on the list of
  documents. Each raises what the environment says, before any effect; every failure
  of the network, the server or the driver (timeouts, size limits) is such a fault.
  A cursor limit of 0 means no limit and a negative limit counts as its absolute value.
  Sorting is the stable insertion sort \<open>sort_key\<close>; the server promises no order among
  equal keys, and no theorem below depends on that order.
\<close>

definition cursor_limit :: "int \<Rightarrow> 'a list \<Rightarrow> 'a list" where
  "cursor_limit limit xs = (if limit = 0 then xs else take (nat \<bar>limit\<bar>) xs)"

text \<open>\<open>collection.find({"conversation_id": cid}).sort("timestamp", 1).limit(limit)\<close>, iterated.\<close>

definition find_sorted :: "env \<Rightarrow> string \<Rightarrow> int \<Rightarrow> message_doc list call" where
  "find_sorted ev cid limit s =
     (case find_fault ev of
        Some e \<Rightarrow> (Inl e, s)
      | None \<Rightarrow>
          (Inr (cursor_limit limit
                  (sort_key doc_timestamp (filter (\<lambda>d. doc_conversation_id d = cid) (store s)))), s))"

definition insert_one :: "env \<Rightarrow> message_doc \<Rightarrow> unit call" where
  "insert_one ev doc s =
     (case insert_fault ev of
        Some e \<Rightarrow> (Inl e, s)
      | None \<Rightarrow> (Inr (), s\<lparr>store := store s @ [doc]\<rparr>))"

definition count_documents :: "env \<Rightarrow> nat call" where
  "count_documents ev s =
     (case count_fault ev of
        Some e \<Rightarrow> (Inl e, s)
      | None \<Rightarrow> (Inr (length (store s)), s))"

text \<open>\<open>collection.delete_many({"conversation_id": cid})\<close>; the result is \<open>deleted_count\<close>.\<close>

definition delete_many :: "env \<Rightarrow> string \<Rightarrow> nat call" where
  "delete_many ev cid s =
     (case delete_fault ev of
        Some e \<Rightarrow> (Inl e, s)
      | None \<Rightarrow>
          (Inr (length (filter (\<lambda>d. doc_conversation_id d = cid) (store s))),
           s\<lparr>store := filter (\<lambda>d. doc_conversation_id d \<noteq> cid) (store s)\<rparr>))"

text \<open>One output document of the \<open>$group\<close> stage.\<close>

record group_doc =
  grp_id :: string
  grp_first_message :: string
  grp_last_message :: string
  grp_message_count :: int
  grp_created_at :: datetime
  grp_updated_at :: datetime

text \<open>
  \<open>$group\<close> by \<open>conversation_id\<close> with the accumulators \<open>$first\<close>, \<open>$last\<close>, \<open>$sum: 1\<close>,
  \<open>$min\<close> and \<open>$max\<close>: the documents are folded, in the order they arrive, into one
  accumulator per key; a new key opens a group at the end of the list.
\<close>

definition new_group :: "message_doc \<Rightarrow> group_doc" where
  "new_group d =
     \<lparr>grp_id = doc_conversation_id d, grp_first_message = user_message d,
      grp_last_message = user_message d, grp_message_count = 1,
      grp_created_at = doc_created_at d, grp_updated_at = doc_timestamp d\<rparr>"

definition accumulate :: "message_doc \<Rightarrow> group_doc \<Rightarrow> group_doc" where
  "accumulate d g =
     g\<lparr>grp_last_message := user_message d,
       grp_message_count := grp_message_count g + 1,
       grp_created_at := min (grp_created_at g) (doc_created_at d),
       grp_updated_at := max (grp_updated_at g) (doc_timestamp d)\<rparr>"

fun group_add :: "message_doc \<Rightarrow> group_doc list \<Rightarrow> group_doc list" where
  "group_add d [] = [new_group d]"
| "group_add d (g # gs) =
     (if grp_id g = doc_conversation_id d then accumulate d g # gs else g # group_add d gs)"

definition group_stage :: "message_doc list \<Rightarrow> group_doc list" where
  "group_stage ds = fold group_add ds []"

text \<open>The pipeline: \<open>$sort {timestamp: 1}\<close>, \<open>$group\<close>, \<open>$sort {updated_at: -1}\<close>, \<open>$limit\<close>.
  The server rejects a \<open>$limit\<close> that is not positive.\<close>

definition pipeline_groups :: "message_doc list \<Rightarrow> group_doc list" where
  "pipeline_groups ds = sort_key (\<lambda>g. - grp_updated_at g) (group_stage (sort_key doc_timestamp ds))"

definition aggregate :: "env \<Rightarrow> int \<Rightarrow> group_doc list call" where
  "aggregate ev limit s =
     (case aggregate_fault ev of
        Some e \<Rightarrow> (Inl e, s)
      | None \<Rightarrow>
          if limit \<le> 0 then (Inl (PyMongoError ''the limit must be positive''), s)
          else (Inr (take (nat limit) (pipeline_groups (store s))), s))"

section \<open>Chat service (\<open>app/services/chat.py\<close>)\<close>

text \<open>\<open>get_utc_now()\<close>: the next reading of the clock.\<close>

definition get_utc_now :: "env \<Rightarrow> datetime call" where
  "get_utc_now ev s = (Inr (utc_clock ev (ticks s)), s\<lparr>ticks := Suc (ticks s)\<rparr>)"

text \<open>\<open>generate_conversation_id()\<close>: \<open>f"conv_{uuid.uuid4().hex[:16]}"\<close>.\<close>

definition generate_conversation_id :: "env \<Rightarrow> string" where
  "generate_conversation_id ev = ''conv_'' @ take 16 (uuid4_hex ev)"

text \<open>\<open>ChatService._get_collection\<close>: the cached collection, or connect if needed and fetch
  it.\<close>

definition ChatService_get_collection :: "env \<Rightarrow> collection_handle call" where
  "ChatService_get_collection ev s =
     (case conversations_collection s of
        Some c \<Rightarrow> (Inr c, s)
      | None \<Rightarrow>
          bnd (\<lambda>s1. case get_database s1 of
                       Some db \<Rightarrow> (Inr db, s1)
                     | None \<Rightarrow>
                         bnd (connect ev)
                           (\<lambda>_ s2. case get_database s2 of
                                      None \<Rightarrow>
                                        (Inl (RuntimeError ''Database connection returned None''), s2)
                                    | Some db \<Rightarrow> (Inr db, s2)) s1)
            (\<lambda>_. bnd (get_collection ''conversations'')
                    (\<lambda>c s3. (Inr c, s3\<lparr>conversations_collection := Some c\<rparr>))) s)"

text \<open>The \<open>ChatMessage\<close> constructor with its validation: the role validator and
  \<open>min_length=1\<close> on \<open>content\<close>.\<close>

definition new_ChatMessage :: "string \<Rightarrow> string \<Rightarrow> datetime option \<Rightarrow> error + ChatMessage" where
  "new_ChatMessage r c t =
     (if r \<noteq> ''user'' \<and> r \<noteq> ''assistant'' then Inl (ValidationError ''role'')
      else if length c < 1 then Inl (ValidationError ''content'')
      else Inr \<lparr>role = r, content = c, timestamp = t\<rparr>)"

text \<open>The \<open>async for doc in cursor\<close> loop of \<open>get_conversation_history\<close>, on the variables
  \<open>messages\<close>, \<open>created_at\<close> and \<open>updated_at\<close>.\<close>

fun history_loop ::
  "message_doc list \<Rightarrow> ChatMessage list \<Rightarrow> datetime option \<Rightarrow> datetime option \<Rightarrow>
   error + (ChatMessage list \<times> datetime option \<times> datetime option)" where
  "history_loop [] msgs c u = Inr (msgs, c, u)"
| "history_loop (doc # docs) msgs c u =
     (let c' = (if c = None then Some (doc_created_at doc) else c) in
      case new_ChatMessage ''user'' (user_message doc) (Some (doc_timestamp doc)) of
        Inl e \<Rightarrow> Inl e
      | Inr m1 \<Rightarrow>
          (case new_ChatMessage ''assistant'' (assistant_message doc) (Some (doc_timestamp doc)) of
             Inl e \<Rightarrow> Inl e
           | Inr m2 \<Rightarrow> history_loop docs (msgs @ [m1, m2]) c' (Some (doc_timestamp doc))))"

text \<open>\<open>if db is None: await self.db_service.connect()\<close>\<close>

definition connect_if_needed :: "env \<Rightarrow> unit call" where
  "connect_if_needed ev s =
     (case get_database s of
        None \<Rightarrow> bnd (connect ev) (\<lambda>_. ret ()) s
      | Some _ \<Rightarrow> (Inr (), s))"

definition get_conversation_history :: "env \<Rightarrow> string \<Rightarrow> int \<Rightarrow> ConversationHistory call" where
  "get_conversation_history ev cid limit =
     bnd (connect_if_needed ev)
       (\<lambda>_. bnd (ChatService_get_collection ev)
          (\<lambda>collection. bnd (find_sorted ev cid limit)
             (\<lambda>docs. case history_loop docs [] None None of
                        Inl e \<Rightarrow> raise e
                      | Inr (msgs, c, u) \<Rightarrow>
                          ret \<lparr>conversation_id = cid, messages = msgs, created_at = c,
                               updated_at = u, message_count = int (length msgs)\<rparr>)))"

text \<open>The default of the \<open>limit\<close> parameter of \<open>get_conversation_history\<close>.\<close>

definition default_history_limit :: int where
  "default_history_limit = 50"

text \<open>
  \<open>ChatService._store_message\<close>. The test \<open>if collection is None\<close> of the source has no
  branch here: \<open>_get_collection\<close> returns a collection or raises. The outer
  \<open>except Exception: raise\<close> re-raises unchanged.
\<close>

definition store_message :: "env \<Rightarrow> string \<Rightarrow> string \<Rightarrow> string \<Rightarrow> unit call" where
  "store_message ev cid user_msg assistant_msg =
     bnd (\<lambda>s. case get_database s of
                 Some db \<Rightarrow> (Inr (Some db), s)
               | None \<Rightarrow>
                   try_except (bnd (connect ev) (\<lambda>_ s2. (Inr (get_database s2), s2)))
                     (\<lambda>conn_error.
                        raise (Exception (''Database connection failed: '' @ str_error conn_error))) s)
       (\<lambda>db. if db = None
              then raise (Exception ''Database connection is None after connect attempt'')
              else bnd (ChatService_get_collection ev)
                     (\<lambda>collection. bnd (get_utc_now ev)
                        (\<lambda>now. insert_one ev
                                  \<lparr>doc_conversation_id = cid, user_message = user_msg,
                                   assistant_message = assistant_msg, doc_timestamp = now,
                                   doc_created_at = now,
                                   message_length = length user_msg + length assistant_msg\<rparr>)))"

text \<open>The dict returned by \<open>send_message\<close>.\<close>

record send_result =
  response :: string
  sent_conversation_id :: string
  sent_timestamp :: datetime

text \<open>
  \<open>ChatService.send_message\<close>; \<open>conv_id\<close> is its parameter \<open>conversation_id\<close>.
  \<open>not conversation_id\<close> holds for \<open>None\<close> and for the empty
  string; \<open>if chat_history\<close> fails for \<open>None\<close> and for the empty list. An exception of the
  provider propagates; one of \<open>_store_message\<close> is caught by \<open>except Exception\<close>, whose
  body only writes to the log.
\<close>

definition effective_conversation_id :: "env \<Rightarrow> string option \<Rightarrow> string" where
  "effective_conversation_id ev conv_id =
     (case conv_id of
        None \<Rightarrow> generate_conversation_id ev
      | Some c \<Rightarrow> if c = [] then generate_conversation_id ev else c)"

definition provider_history :: "ChatMessage list option \<Rightarrow> (string \<times> string) list option" where
  "provider_history chat_history =
     (case chat_history of
        None \<Rightarrow> None
      | Some h \<Rightarrow> if h = [] then None else Some (map (\<lambda>msg. (role msg, content msg)) h))"

definition send_message ::
  "env \<Rightarrow> string \<Rightarrow> string option \<Rightarrow> ChatMessage list option \<Rightarrow> send_result call" where
  "send_message ev message conv_id chat_history =
     (let cid = effective_conversation_id ev conv_id;
          history = provider_history chat_history
      in case generate_response ev message history of
           Inl e \<Rightarrow> raise e
         | Inr response_text \<Rightarrow>
             bnd (try_except (store_message ev cid message response_text) (\<lambda>e. ret ()))
               (\<lambda>_. bnd (get_utc_now ev)
                  (\<lambda>now. ret \<lparr>response = response_text, sent_conversation_id = cid,
                               sent_timestamp = now\<rparr>)))"

record ConversationSummary =
  summary_conversation_id :: string
  first_message :: "string option"
  last_message :: "string option"
  summary_message_count :: int
  summary_created_at :: "datetime option"
  summary_updated_at :: "datetime option"

text \<open>The loop over the aggregation's output: a group whose \<open>_id\<close> is falsy (the empty
  string) is skipped, every other group becomes a \<open>ConversationSummary\<close>.\<close>

fun summaries_loop :: "group_doc list \<Rightarrow> ConversationSummary list \<Rightarrow> ConversationSummary list" where
  "summaries_loop [] summaries = summaries"
| "summaries_loop (doc # docs) summaries =
     (if grp_id doc = [] then summaries_loop docs summaries
      else summaries_loop docs
             (summaries @
                [\<lparr>summary_conversation_id = grp_id doc,
                  first_message = Some (grp_first_message doc),
                  last_message = Some (grp_last_message doc),
                  summary_message_count = grp_message_count doc,
                  summary_created_at = Some (grp_created_at doc),
                  summary_updated_at = Some (grp_updated_at doc)\<rparr>]))"

text \<open>The body of the \<open>try\<close> block of \<open>get_conversation_summaries\<close>; its \<open>return []\<close>
  statements are the \<open>ret []\<close> here.\<close>

definition summaries_connected :: "env \<Rightarrow> int \<Rightarrow> ConversationSummary list call" where
  "summaries_connected ev limit s =
     (case get_database s of
        None \<Rightarrow> (Inr [], s)
      | Some db \<Rightarrow>
          bnd (ChatService_get_collection ev)
            (\<lambda>collection. bnd (count_documents ev)
               (\<lambda>count. if count = 0 then ret []
                         else bnd (aggregate ev limit)
                                (\<lambda>docs. ret (summaries_loop docs [])))) s)"

definition summaries_body :: "env \<Rightarrow> int \<Rightarrow> ConversationSummary list call" where
  "summaries_body ev limit s =
     (case get_database s of
        Some db \<Rightarrow> summaries_connected ev limit s
      | None \<Rightarrow>
          (case connect ev s of
             (Inl conn_error, s') \<Rightarrow> (Inr [], s')
           | (Inr _, s') \<Rightarrow> summaries_connected ev limit s'))"

text \<open>\<open>ChatService.get_conversation_summaries\<close>: both branches of the handler return the
  empty list.\<close>

definition get_conversation_summaries :: "env \<Rightarrow> int \<Rightarrow> ConversationSummary list call" where
  "get_conversation_summaries ev limit = try_except (summaries_body ev limit) (\<lambda>e. ret [])"

text \<open>\<open>ChatService.delete_conversation\<close>: \<open>except Exception: raise\<close> re-raises unchanged.\<close>

definition delete_conversation :: "env \<Rightarrow> string \<Rightarrow> bool call" where
  "delete_conversation ev cid =
     bnd (connect_if_needed ev)
       (\<lambda>_. bnd (ChatService_get_collection ev)
          (\<lambda>collection. bnd (delete_many ev cid)
             (\<lambda>deleted_count. ret (deleted_count > 0))))"

section \<open>The delete route (\<open>app/routes/chat.py\<close>)\<close>

record HTTPException =
  status_code :: nat
  detail :: "string option"

text \<open>The success envelope: status, message, and the \<open>conversation_id\<close> of its data.\<close>

record JSONResponse =
  json_status :: nat
  json_message :: string
  json_data :: string

text \<open>
  \<open>DELETE /conversations/{conversation_id}\<close>, with the chat service already built
  (\<open>get_chat_service()\<close> returns the instance whose state is passed in).
  \<open>except HTTPException: raise\<close> lets the 404 through; any other exception becomes a 500.
\<close>

definition route_delete_conversation ::
  "env \<Rightarrow> string \<Rightarrow> service_state \<Rightarrow> (HTTPException + JSONResponse) \<times> service_state" where
  "route_delete_conversation ev cid s =
     (case validate_conversation_id cid of
        (False, error_msg) \<Rightarrow> (Inl \<lparr>status_code = 400, detail = error_msg\<rparr>, s)
      | (True, _) \<Rightarrow>
          (case delete_conversation ev cid s of
             (Inr True, s') \<Rightarrow>
               (Inr \<lparr>json_status = 200, json_message = ''Conversation deleted successfully'',
                     json_data = cid\<rparr>, s')
           | (Inr False, s') \<Rightarrow>
               (Inl \<lparr>status_code = 404, detail = Some ''Conversation not found''\<rparr>, s')
           | (Inl e, s') \<Rightarrow>
               (Inl \<lparr>status_code = 500,
                     detail = Some (''Error deleting conversation: '' @ str_error e)\<rparr>, s')))"

section \<open>\<open>analyze_conversation\<close>\<close>

text \<open>The history is fetched with the default limit; an exception gives the \<open>error\<close>
  result.\<close>

definition analyze_conversation :: "env \<Rightarrow> string \<Rightarrow> service_state \<Rightarrow> analysis \<times> service_state" where
  "analyze_conversation ev cid s =
     (case get_conversation_history ev cid default_history_limit s of
        (Inr history, s') \<Rightarrow> (analyze_history cid history, s')
      | (Inl e, s') \<Rightarrow>
          (\<lparr>analysis_conversation_id = cid, status = ''error'', gaps = [], suggestions = [],
            completeness_score = 0, analysis_metrics = None, gap_count = None,
            severity_breakdown = None, analysis_error = Some (str_error e)\<rparr>, s'))"

section \<open>Definitions used to state the properties\<close>

text \<open>The exchanges stored for one conversation id, in insertion order.\<close>

definition exchanges_of :: "string \<Rightarrow> message_doc list \<Rightarrow> message_doc list" where
  "exchanges_of cid ds = filter (\<lambda>d. doc_conversation_id d = cid) ds"



text \<open>The state after the connection and the collection are in place.\<close>

definition the_collection :: "service_state \<Rightarrow> collection_handle" where
  "the_collection s =
     (case conversations_collection s of None \<Rightarrow> MotorCollection ''conversations'' | Some c \<Rightarrow> c)"

definition opened :: "service_state \<Rightarrow> service_state" where
  "opened s = s\<lparr>database := Some MotorDatabase, conversations_collection := Some (the_collection s)\<rparr>"

text \<open>
  What a group of the aggregation must hold for the documents \<open>ps\<close> it was fed, in their
  order: the first and the last user message, the number of documents, the least
  \<open>created_at\<close> and the greatest \<open>timestamp\<close> of its conversation.
\<close>

definition group_ok :: "message_doc list \<Rightarrow> group_doc \<Rightarrow> bool" where
  "group_ok ps g \<longleftrightarrow>
     (let m = exchanges_of (grp_id g) ps in
      m \<noteq> [] \<and> grp_first_message g = user_message (hd m) \<and>
      grp_last_message g = user_message (last m) \<and>
      grp_message_count g = int (length m) \<and>
      grp_created_at g = Min (doc_created_at ` set m) \<and>
      grp_updated_at g = Max (doc_timestamp ` set m))"

definition groups_inv :: "message_doc list \<Rightarrow> group_doc list \<Rightarrow> bool" where
  "groups_inv ps gs \<longleftrightarrow>
     distinct (map grp_id gs) \<and> set (map grp_id gs) = doc_conversation_id ` set ps \<and>
     list_all (group_ok ps) gs"

text \<open>The summary built from one group, and the summaries of all groups before \<open>$limit\<close>.\<close>

definition to_summary :: "group_doc \<Rightarrow> ConversationSummary" where
  "to_summary g =
     \<lparr>summary_conversation_id = grp_id g, first_message = Some (grp_first_message g),
      last_message = Some (grp_last_message g), summary_message_count = grp_message_count g,
      summary_created_at = Some (grp_created_at g), summary_updated_at = Some (grp_updated_at g)\<rparr>"

definition all_summaries :: "message_doc list \<Rightarrow> ConversationSummary list" where
  "all_summaries ds = map to_summary (pipeline_groups ds)"

text \<open>
  A summary is right for the stored documents \<open>ds\<close>: its first (last) message is the user
  message of an exchange of its conversation with the least (greatest) timestamp, its
  count is the number of exchanges, \<open>created_at\<close> is the least \<open>created_at\<close> and
  \<open>updated_at\<close> the greatest timestamp.
\<close>

definition summary_ok :: "message_doc list \<Rightarrow> ConversationSummary \<Rightarrow> bool" where
  "summary_ok ds x \<longleftrightarrow>
     (let m = exchanges_of (summary_conversation_id x) ds in
      (\<exists>d\<in>set m. first_message x = Some (user_message d) \<and>
                   (\<forall>d'\<in>set m. doc_timestamp d \<le> doc_timestamp d')) \<and>
      (\<exists>d\<in>set m. last_message x = Some (user_message d) \<and>
                   (\<forall>d'\<in>set m. doc_timestamp d' \<le> doc_timestamp d)) \<and>
      summary_message_count x = int (length m) \<and>
      summary_created_at x = Some (Min (doc_created_at ` set m)) \<and>
      summary_updated_at x = Some (Max (doc_timestamp ` set m)))"

section \<open>Example inputs\<close>

text \<open>An environment in which nothing fails, and variants with one failure each.\<close>

definition env_ok :: env where
  "env_ok = \<lparr>connect_fault = None, insert_fault = None, find_fault = None, count_fault = None,
     aggregate_fault = None, delete_fault = None,
     generate_response = (\<lambda>prompt history. Inr ''Hello! How can I help you today?''),
     uuid4_hex = ''0123456789abcdef0123456789abcdef'',
     utc_clock = (\<lambda>n. 1000 + int n)\<rparr>"

definition env_down :: env where
  "env_down = env_ok\<lparr>connect_fault := Some (PyMongoError ''connection refused'')\<rparr>"

definition env_aggregate_fails :: env where
  "env_aggregate_fails = env_ok\<lparr>aggregate_fault := Some (PyMongoError ''operation timeout'')\<rparr>"

definition env_empty_reply :: env where
  "env_empty_reply = env_ok\<lparr>generate_response := (\<lambda>prompt history. Inr [])\<rparr>"

text \<open>A document as \<open>_store_message\<close> writes it at time \<open>t\<close>.\<close>

definition exchange :: "string \<Rightarrow> string \<Rightarrow> string \<Rightarrow> datetime \<Rightarrow> message_doc" where
  "exchange cid u a t = \<lparr>doc_conversation_id = cid, user_message = u, assistant_message = a,
     doc_timestamp = t, doc_created_at = t, message_length = length u + length a\<rparr>"

definition state_fresh :: service_state where
  "state_fresh = \<lparr>database = Some MotorDatabase, conversations_collection = None, store = [], ticks = 0\<rparr>"

definition state_disconnected :: service_state where
  "state_disconnected = \<lparr>database = None, conversations_collection = None, store = [], ticks = 0\<rparr>"

definition state_two :: service_state where
  "state_two = \<lparr>database = Some MotorDatabase,
     conversations_collection = Some (MotorCollection ''conversations''),
     store = [exchange ''c1'' ''What is Python?'' ''Python is a programming language.'' 20,
              exchange ''c2'' ''hi'' ''hello'' 15,
              exchange ''c1'' ''Why?'' ''Because.'' 10],
     ticks = 3\<rparr>"


text \<open>Histories for the gap rules: a short single exchange, a single exchange with a long
  answer, and four user messages with three question marks against two answers.\<close>

definition hi_hello :: ConversationHistory where
  "hi_hello = \<lparr>conversation_id = ''c1'',
     messages = [\<lparr>role = ''user'', content = ''hi'', timestamp = Some 0\<rparr>,
                 \<lparr>role = ''assistant'', content = ''hello'', timestamp = Some 0\<rparr>],
     created_at = Some 0, updated_at = Some 0, message_count = 2\<rparr>"

definition long_answer :: ConversationHistory where
  "long_answer = \<lparr>conversation_id = ''c1'',
     messages = [\<lparr>role = ''user'', content = ''What is Python?'', timestamp = Some 0\<rparr>,
                 \<lparr>role = ''assistant'',
                   content = ''Python is a high-level programming language used for many tasks.'',
                   timestamp = Some 0\<rparr>],
     created_at = Some 0, updated_at = Some 0, message_count = 2\<rparr>"

definition four_two :: ConversationHistory where
  "four_two = \<lparr>conversation_id = ''c1'',
     messages = [\<lparr>role = ''user'', content = ''What is X?'', timestamp = Some 0\<rparr>,
                 \<lparr>role = ''assistant'',
                   content = ''X is the twenty-fourth letter of the Latin alphabet, after W.'',
                   timestamp = Some 0\<rparr>,
                 \<lparr>role = ''user'', content = ''Why?'', timestamp = Some 1\<rparr>,
                 \<lparr>role = ''user'', content = ''And how?'', timestamp = Some 2\<rparr>,
                 \<lparr>role = ''assistant'',
                   content = ''The alphabet took its order from the Greek and Etruscan ones.'',
                   timestamp = Some 2\<rparr>,
                 \<lparr>role = ''user'', content = ''ok'', timestamp = Some 3\<rparr>],
     created_at = Some 0, updated_at = Some 3, message_count = 6\<rparr>"

section \<open>Gap analysis: the rules\<close>

lemmas eval_defs = env_ok_def env_down_def env_aggregate_fails_def env_empty_reply_def
  state_fresh_def state_disconnected_def state_two_def exchange_def

text \<open>The six blocks in one formula: which gaps are appended and what is subtracted.\<close>

lemma apply_rules_expl:
  "apply_rules msgs =
     (let u = user_of msgs; a = ai_of msgs;
          c1 = (length u < 2); c2 = (length u = 1 \<and> length a = 1);
          c3 = (2 * length (short_responses a) > length a);
          c4 = (\<not> has_keyword detail_keywords u \<and> length u > 2);
          c5 = (\<not> has_keyword action_keywords u \<and> length u > 3);
          c6 = (question_marks u > length a)
      in ((if c1 then [missing_context_gap] else []) @ (if c2 then [no_followup_gap] else []) @
          (if c3 then [short_responses_gap] else []) @ (if c4 then [missing_details_gap] else []) @
          (if c5 then [no_action_items_gap] else []) @ (if c6 then [unanswered_questions_gap] else []),
          100 - (if c1 then 20 else 0) - (if c2 then 10 else 0) - (if c3 then 15 else 0)
              - (if c4 then 15 else 0) - (if c5 then 10 else 0) - (if c6 then 25 else 0)))"
  by (simp add: apply_rules_def rules_1_to_5_def gap1_def gap2_def gap3_def gap4_def gap5_def gap6_def
      trigger_def Let_def)

lemma gaps_distinct:
  "distinct [missing_context_gap, no_followup_gap, short_responses_gap, missing_details_gap,
             no_action_items_gap, unanswered_questions_gap]"
  by (simp add: missing_context_gap_def no_followup_gap_def short_responses_gap_def
      missing_details_gap_def no_action_items_gap_def unanswered_questions_gap_def)

lemma analyzed_gaps:
  "messages h \<noteq> [] \<Longrightarrow> gaps (analyze_history cid h) = fst (apply_rules (messages h))"
  by (simp add: analyze_history_def Let_def)

lemma analyzed_score:
  "messages h \<noteq> [] \<Longrightarrow>
   completeness_score (analyze_history cid h) = max 0 (snd (apply_rules (messages h)))"
  by (simp add: analyze_history_def Let_def)

text \<open>\<open>analyze_conversation\<close> is \<open>analyze_history\<close> on the history it fetches.\<close>

lemma analyze_conversation_of_history:
  "get_conversation_history ev cid default_history_limit s = (Inr h, s') \<Longrightarrow>
   analyze_conversation ev cid s = (analyze_history cid h, s')"
  by (simp add: analyze_conversation_def)

lemma rules_1_to_5_score_ge: "55 \<le> snd (rules_1_to_5 msgs)"
  by (simp add: rules_1_to_5_def gap1_def gap2_def gap3_def gap4_def gap5_def trigger_def Let_def)

lemma single_short:
  "length a = Suc 0 \<Longrightarrow>
   (2 * length (short_responses a) > length a) = (short_responses a \<noteq> [])"
  by (cases a) (auto simp: short_responses_def)

text \<open>
  C5, as the claim states it, fails: the history \<open>hi_hello\<close> has exactly one user and one
  assistant message, and its score is 55, not 70, because the short answer also
  triggers \<open>short_responses\<close>. The same history comes out of the store: conversation
  \<open>c2\<close> of \<open>state_two\<close>.
\<close>

theorem single_exchange_score_counterexample:
  "length (user_of (messages hi_hello)) = 1 \<and> length (ai_of (messages hi_hello)) = 1 \<and>
   completeness_score (analyze_history ''c1'' hi_hello) = 55 \<and>
   completeness_score (analyze_history ''c1'' hi_hello) \<noteq> 70 \<and>
   completeness_score (fst (analyze_conversation env_ok ''c2'' state_two)) = 55"
proof -
  have a: "completeness_score (analyze_history ''c1'' hi_hello) = 55"
    by (simp add: hi_hello_def analyzed_score apply_rules_expl user_of_def ai_of_def
        short_responses_def question_marks_def Let_def)
  have h: "get_conversation_history env_ok ''c2'' default_history_limit state_two =
      (Inr \<lparr>conversation_id = ''c2'',
            messages = [\<lparr>role = ''user'', content = ''hi'', timestamp = Some 15\<rparr>,
                        \<lparr>role = ''assistant'', content = ''hello'', timestamp = Some 15\<rparr>],
            created_at = Some 15, updated_at = Some 15, message_count = 2\<rparr>, state_two)"
    by (simp add: eval_defs get_conversation_history_def connect_if_needed_def bnd_def ret_def
        get_database_def ChatService_get_collection_def find_sorted_def cursor_limit_def
        default_history_limit_def new_ChatMessage_def Let_def)
  have b: "completeness_score (fst (analyze_conversation env_ok ''c2'' state_two)) = 55"
    by (simp add: analyze_conversation_def h analyzed_score apply_rules_expl user_of_def ai_of_def
        short_responses_def question_marks_def Let_def)
  show ?thesis
    using a b by (simp add: hi_hello_def user_of_def ai_of_def)
qed

text \<open>
  C5 (amended): for every history with exactly one user message and exactly one
  assistant message, \<open>analyze_conversation\<close> reports \<open>missing_context\<close> (medium) and
  \<open>no_followup\<close> (low), in that order and before any other gap; the score is
  \<open>100 - 20 - 10 = 70\<close> less 15 when the assistant message is shorter than 50 characters
  and less 25 when the user message holds more than one question mark. It is 70 exactly
  when neither of the two applies.
\<close>

theorem single_exchange_analysis:
  assumes "length (user_of (messages h)) = 1" and "length (ai_of (messages h)) = 1"
  shows "gaps (analyze_history cid h) =
           [missing_context_gap, no_followup_gap]
           @ (if short_responses (ai_of (messages h)) \<noteq> [] then [short_responses_gap] else [])
           @ (if question_marks (user_of (messages h)) > 1 then [unanswered_questions_gap] else [])
         \<and> severity missing_context_gap = ''medium'' \<and> severity no_followup_gap = ''low''
         \<and> completeness_score (analyze_history cid h) =
           70 - (if short_responses (ai_of (messages h)) \<noteq> [] then 15 else 0)
              - (if question_marks (user_of (messages h)) > 1 then 25 else 0)"
proof -
  from assms(1) have ne: "messages h \<noteq> []" by (auto simp: user_of_def)
  have sev: "severity missing_context_gap = ''medium''" "severity no_followup_gap = ''low''"
    by (simp_all add: missing_context_gap_def no_followup_gap_def)
  show ?thesis
    using assms single_short[of "ai_of (messages h)"] sev
    by (simp add: analyzed_gaps[OF ne] analyzed_score[OF ne] apply_rules_expl Let_def)
qed

theorem single_exchange_analysis_witness:
  "length (user_of (messages long_answer)) = 1 \<and> length (ai_of (messages long_answer)) = 1 \<and>
   gaps (analyze_history ''c1'' long_answer) = [missing_context_gap, no_followup_gap] \<and>
   completeness_score (analyze_history ''c1'' long_answer) = 70"
proof -
  have u: "length (user_of (messages long_answer)) = 1"
    and a: "length (ai_of (messages long_answer)) = 1"
    by (simp_all add: long_answer_def user_of_def ai_of_def)
  have s: "short_responses (ai_of (messages long_answer)) = []"
    by (simp add: long_answer_def ai_of_def short_responses_def)
  have q: "question_marks (user_of (messages long_answer)) = 1"
    by (simp add: long_answer_def user_of_def question_marks_def)
  show ?thesis
    using single_exchange_analysis[OF u a, of "''c1''"] u a by (simp add: s q)
qed

text \<open>
  C6: whenever the user messages hold strictly more question marks than there are
  assistant messages, \<open>analyze_conversation\<close> appends the \<open>unanswered_questions\<close> gap,
  of severity high, after the gaps of the first five rules, and the score is the score
  after those rules less 25 (the floor at 0 does not interfere).
\<close>

theorem unanswered_questions_triggers:
  assumes "question_marks (user_of (messages h)) > length (ai_of (messages h))"
  shows "gaps (analyze_history cid h) = fst (rules_1_to_5 (messages h)) @ [unanswered_questions_gap]
       \<and> gap_type unanswered_questions_gap = ''unanswered_questions''
       \<and> severity unanswered_questions_gap = ''high''
       \<and> completeness_score (analyze_history cid h) = snd (rules_1_to_5 (messages h)) - 25"
proof -
  from assms have ne: "messages h \<noteq> []" by (auto simp: user_of_def question_marks_def)
  have "0 \<le> snd (rules_1_to_5 (messages h)) - 25"
    using rules_1_to_5_score_ge[of "messages h"] by simp
  then show ?thesis using assms
    by (simp add: analyzed_gaps[OF ne] analyzed_score[OF ne] apply_rules_def gap6_def trigger_def
        unanswered_questions_gap_def)
qed

theorem unanswered_questions_triggers_witness:
  "length (user_of (messages four_two)) = 4 \<and> length (ai_of (messages four_two)) = 2 \<and>
   question_marks (user_of (messages four_two)) = 3 \<and>
   gaps (analyze_history ''c1'' four_two) = [no_action_items_gap, unanswered_questions_gap] \<and>
   completeness_score (analyze_history ''c1'' four_two) = 65"
proof -
  have u: "length (user_of (messages four_two)) = 4"
    and a: "length (ai_of (messages four_two)) = 2"
    and q: "question_marks (user_of (messages four_two)) = 3"
    by (simp_all add: four_two_def user_of_def ai_of_def question_marks_def)
  have h: "question_marks (user_of (messages four_two)) > length (ai_of (messages four_two))"
    by (simp add: a q)
  have r: "rules_1_to_5 (messages four_two) = ([no_action_items_gap], 90)"
    by (simp add: four_two_def rules_1_to_5_def user_of_def ai_of_def gap1_def gap2_def gap3_def
        gap4_def gap5_def trigger_def short_responses_def has_keyword_def detail_keywords_def
        action_keywords_def lower_def lower_char_def Let_def)
  show ?thesis
    using unanswered_questions_triggers[OF h, of "''c1''"] u a q by (simp add: r)
qed

text \<open>
  C10: for every non-empty history, \<open>missing_context\<close> and \<open>missing_details\<close> are never
  both reported, nor are \<open>no_followup\<close> and \<open>no_action_items\<close>; the penalties sum to at
  most 70, the completeness score is at least 30, and it equals the score before
  \<open>max(0, score)\<close>: the floor is never reached.
\<close>

theorem gap_rules_exclusive_score_floor:
  assumes "messages h \<noteq> []"
  shows "\<not> (missing_context_gap \<in> set (gaps (analyze_history cid h)) \<and>
             missing_details_gap \<in> set (gaps (analyze_history cid h)))
       \<and> \<not> (no_followup_gap \<in> set (gaps (analyze_history cid h)) \<and>
             no_action_items_gap \<in> set (gaps (analyze_history cid h)))
       \<and> 100 - snd (apply_rules (messages h)) \<le> 70
       \<and> 30 \<le> completeness_score (analyze_history cid h)
       \<and> completeness_score (analyze_history cid h) = snd (apply_rules (messages h))"
proof -
  have g: "gaps (analyze_history cid h) = fst (apply_rules (messages h))"
    by (rule analyzed_gaps[OF assms])
  have a: "\<not> (missing_context_gap \<in> set (fst (apply_rules (messages h))) \<and>
             missing_details_gap \<in> set (fst (apply_rules (messages h))))"
    using gaps_distinct by (auto simp: apply_rules_expl Let_def split: if_splits)
  have b: "\<not> (no_followup_gap \<in> set (fst (apply_rules (messages h))) \<and>
             no_action_items_gap \<in> set (fst (apply_rules (messages h))))"
    using gaps_distinct by (auto simp: apply_rules_expl Let_def split: if_splits)
  have c: "30 \<le> snd (apply_rules (messages h))"
    by (simp add: apply_rules_expl Let_def)
  show ?thesis using a b c by (simp add: g analyzed_score[OF assms])
qed

theorem gap_rules_exclusive_score_floor_witness:
  "messages hi_hello \<noteq> [] \<and>
   missing_context_gap \<in> set (gaps (analyze_history ''c1'' hi_hello)) \<and>
   missing_details_gap \<notin> set (gaps (analyze_history ''c1'' hi_hello)) \<and>
   snd (apply_rules (messages hi_hello)) = 55 \<and>
   completeness_score (analyze_history ''c1'' hi_hello) = 55"
proof -
  have ne: "messages hi_hello \<noteq> []" by (simp add: hi_hello_def)
  have r: "apply_rules (messages hi_hello) =
             ([missing_context_gap, no_followup_gap, short_responses_gap], 55)"
    by (simp add: hi_hello_def apply_rules_expl user_of_def ai_of_def short_responses_def
        question_marks_def Let_def)
  have g: "gaps (analyze_history ''c1'' hi_hello) =
             [missing_context_gap, no_followup_gap, short_responses_gap]"
    by (simp add: analyzed_gaps[OF ne] r)
  show ?thesis
    using gap_rules_exclusive_score_floor[OF ne, of "''c1''"] ne by (simp add: g r)
qed

section \<open>The call combinators and the connection prelude\<close>

lemma swallow_state:
  "bnd (try_except m (\<lambda>e. ret ())) f s = f () (snd (m s))"
  by (cases "m s" rule: prod.exhaust; cases "fst (m s)") (auto simp: try_except_def ret_def bnd_def)

lemma try_except_nil_cases:
  "fst (try_except m (\<lambda>e. ret []) s) = (case fst (m s) of Inl e \<Rightarrow> Inr [] | Inr x \<Rightarrow> Inr x)"
  by (cases "m s" rule: prod.exhaust; cases "fst (m s)") (auto simp: try_except_def ret_def)

lemma swallow_nil:
  "fst (m s) \<in> {Inr []} \<union> range Inl \<Longrightarrow> fst (try_except m (\<lambda>e. ret []) s) = Inr []"
  by (auto simp: try_except_nil_cases)

lemma db_handle_eq: "(db :: db_handle) = MotorDatabase"
  by (cases db) simp

text \<open>When the database is connected or can be, the first two steps of a read or a delete
  succeed and leave the documents alone.\<close>

lemma prelude:
  assumes "database s \<noteq> None \<or> connect_fault ev = None"
  shows "bnd (connect_if_needed ev) (\<lambda>_. bnd (ChatService_get_collection ev) f) s
           = f (the_collection s) (opened s)"
proof (cases s)
  case (fields db coll docs n)
  have "db = None \<or> db = Some MotorDatabase"
    by (cases db) (simp_all add: db_handle_eq)
  then show ?thesis
    using assms
    by (cases coll)
       (auto simp: fields connect_if_needed_def ChatService_get_collection_def bnd_def ret_def
         get_database_def connect_def get_collection_def the_collection_def opened_def)
qed

lemma opened_simps [simp]: "store (opened s) = store s" "ticks (opened s) = ticks s"
  by (simp_all add: opened_def)

lemma get_collection_connected:
  assumes "database s \<noteq> None"
  shows "\<exists>c s'. ChatService_get_collection ev s = (Inr c, s') \<and> store s' = store s"
  using assms
  by (cases "conversations_collection s")
     (auto simp: ChatService_get_collection_def bnd_def get_database_def get_collection_def)

lemma get_collection_store: "store (snd (ChatService_get_collection ev s)) = store s"
  by (auto simp: ChatService_get_collection_def bnd_def get_database_def connect_def get_collection_def
      split: option.splits sum.splits prod.splits if_splits)

lemma connect_store: "store (snd (connect ev s)) = store s"
  by (auto simp: connect_def split: option.splits)

section \<open>Storing an exchange and sending a message\<close>

text \<open>\<open>_store_message\<close> either appends exactly one document, stamped with the clock's
  reading, or raises and leaves the documents as they were.\<close>

lemma store_message_effect:
  "(fst (store_message ev cid u a s) = Inr () \<and>
    store (snd (store_message ev cid u a s)) =
      store s @ [\<lparr>doc_conversation_id = cid, user_message = u, assistant_message = a,
                  doc_timestamp = utc_clock ev (ticks s), doc_created_at = utc_clock ev (ticks s),
                  message_length = length u + length a\<rparr>])
   \<or> (isl (fst (store_message ev cid u a s)) \<and> store (snd (store_message ev cid u a s)) = store s)"
proof (cases s)
  case (fields db coll docs n)
  show ?thesis
    by (cases db; cases coll; cases "connect_fault ev"; cases "insert_fault ev")
       (simp_all add: fields store_message_def bnd_def try_except_def raise_def ret_def
         get_database_def connect_def ChatService_get_collection_def get_collection_def
         get_utc_now_def insert_one_def)
qed

lemma store_message_fail_keeps_store:
  "fst (store_message ev cid u a s) = Inl e \<Longrightarrow> store (snd (store_message ev cid u a s)) = store s"
  using store_message_effect[of ev cid u a s] by auto

lemma effective_conversation_id_nonempty: "effective_conversation_id ev conv_id \<noteq> []"
  by (simp add: effective_conversation_id_def generate_conversation_id_def split: option.splits)

lemma send_message_store:
  "generate_response ev message (provider_history chat_history) = Inr reply \<Longrightarrow>
   store (snd (send_message ev message conv_id chat_history s)) =
     store (snd (store_message ev (effective_conversation_id ev conv_id) message reply s))"
  by (simp add: send_message_def Let_def swallow_state) (simp add: bnd_def get_utc_now_def ret_def)

text \<open>Every document that \<open>send_message\<close> stores has a non-empty conversation id.\<close>

lemma send_message_keeps_ids_nonempty:
  assumes "\<forall>d\<in>set (store s). doc_conversation_id d \<noteq> []"
  shows "\<forall>d\<in>set (store (snd (send_message ev message conv_id chat_history s))).
           doc_conversation_id d \<noteq> []"
proof (cases "generate_response ev message (provider_history chat_history)")
  case (Inl e)
  then show ?thesis using assms by (simp add: send_message_def Let_def raise_def)
next
  case (Inr reply)
  let ?cid = "effective_conversation_id ev conv_id"
  show ?thesis
    using assms store_message_effect[of ev ?cid message reply s]
      effective_conversation_id_nonempty[of ev conv_id]
    unfolding send_message_store[OF Inr]
    by auto
qed

text \<open>
  C2: when the provider answers and \<open>_store_message\<close> then raises, whatever the
  exception, \<open>send_message\<close> raises nothing: it returns the answer, the conversation id
  (the caller's, or the generated one) and the clock's next reading, and the stored
  documents are what they were. (The handler's log lines are outside the model.)
\<close>

theorem send_message_survives_storage_failure:
  assumes "generate_response ev message (provider_history chat_history) = Inr reply"
      and "fst (store_message ev (effective_conversation_id ev conv_id) message reply s) = Inl e"
  shows "fst (send_message ev message conv_id chat_history s) =
           Inr \<lparr>response = reply,
                sent_conversation_id = effective_conversation_id ev conv_id,
                sent_timestamp =
                  utc_clock ev (ticks (snd (store_message ev (effective_conversation_id ev conv_id)
                                              message reply s)))\<rparr>
       \<and> store (snd (send_message ev message conv_id chat_history s)) = store s"
proof -
  have r: "fst (send_message ev message conv_id chat_history s) =
           Inr \<lparr>response = reply,
                sent_conversation_id = effective_conversation_id ev conv_id,
                sent_timestamp =
                  utc_clock ev (ticks (snd (store_message ev (effective_conversation_id ev conv_id)
                                              message reply s)))\<rparr>"
    using assms(1)
    by (simp add: send_message_def Let_def swallow_state)
       (simp add: bnd_def get_utc_now_def ret_def)
  have k: "store (snd (send_message ev message conv_id chat_history s)) = store s"
    unfolding send_message_store[OF assms(1)] by (rule store_message_fail_keeps_store[OF assms(2)])
  show ?thesis using r k by simp
qed

theorem send_message_survives_storage_failure_witness:
  "fst (store_message env_down ''c1'' ''hi'' ''Hello! How can I help you today?'' state_disconnected) =
     Inl (Exception ''Database connection failed: connection refused'')
   \<and> fst (send_message env_down ''hi'' (Some ''c1'') None state_disconnected) =
     Inr \<lparr>response = ''Hello! How can I help you today?'', sent_conversation_id = ''c1'',
          sent_timestamp = 1000\<rparr>
   \<and> store (snd (send_message env_down ''hi'' (Some ''c1'') None state_disconnected)) = []"
proof -
  have h1: "generate_response env_down ''hi'' (provider_history None) =
              Inr ''Hello! How can I help you today?''"
    by (simp add: eval_defs)
  have st: "store_message env_down ''c1'' ''hi'' ''Hello! How can I help you today?'' state_disconnected =
      (Inl (Exception ''Database connection failed: connection refused''), state_disconnected)"
    by (simp add: eval_defs store_message_def bnd_def try_except_def raise_def get_database_def
        connect_def)
  have cid: "effective_conversation_id env_down (Some ''c1'') = ''c1''"
    by (simp add: effective_conversation_id_def)
  have h2: "fst (store_message env_down (effective_conversation_id env_down (Some ''c1'')) ''hi''
               ''Hello! How can I help you today?'' state_disconnected) =
            Inl (Exception ''Database connection failed: connection refused'')"
    by (simp add: cid st)
  show ?thesis
    using send_message_survives_storage_failure[OF h1 h2]
    by (simp add: cid st) (simp add: eval_defs)
qed

section \<open>Reading a conversation's history\<close>


text \<open>One document with an empty text makes the loop raise, wherever it stands.\<close>

lemma history_loop_empty_text:
  "\<exists>d\<in>set ds. user_message d = [] \<or> assistant_message d = [] \<Longrightarrow>
   history_loop ds msgs c u = Inl (ValidationError ''content'')"
proof (induction ds arbitrary: msgs c u)
  case Nil
  then show ?case by simp
next
  case (Cons d ds)
  show ?case
  proof (cases "user_message d = [] \<or> assistant_message d = []")
    case True
    then show ?thesis by (auto simp: new_ChatMessage_def Let_def)
  next
    case False
    with Cons.prems have "\<exists>d\<in>set ds. user_message d = [] \<or> assistant_message d = []" by simp
    from Cons.IH[OF this] False show ?thesis
      by (simp add: new_ChatMessage_def Let_def)
  qed
qed











text \<open>
  C4: the code does not do what the claim says. An answer that is the empty string is
  stored by \<open>send_message\<close> as it is; reading the conversation back then raises the
  validation error of \<open>ChatMessage.content\<close> (\<open>min_length=1\<close>) instead of returning a
  history.
\<close>

theorem empty_assistant_message_breaks_history:
  "store (snd (send_message env_empty_reply ''hi'' (Some ''c1'') None state_fresh)) =
     [\<lparr>doc_conversation_id = ''c1'', user_message = ''hi'', assistant_message = [],
       doc_timestamp = 1000, doc_created_at = 1000, message_length = 2\<rparr>]
   \<and> fst (get_conversation_history env_ok ''c1'' default_history_limit
            (snd (send_message env_empty_reply ''hi'' (Some ''c1'') None state_fresh))) =
     Inl (ValidationError ''content'')"
  by (simp add: eval_defs send_message_def effective_conversation_id_def provider_history_def
      store_message_def bnd_def try_except_def raise_def ret_def get_database_def connect_def
      ChatService_get_collection_def get_collection_def get_utc_now_def insert_one_def
      get_conversation_history_def connect_if_needed_def find_sorted_def cursor_limit_def
      default_history_limit_def new_ChatMessage_def Let_def)

section \<open>Deleting a conversation\<close>

lemma delete_conversation_ok:
  assumes "database s \<noteq> None \<or> connect_fault ev = None" and "delete_fault ev = None"
  shows "fst (delete_conversation ev cid s) = Inr (exchanges_of cid (store s) \<noteq> [])"
    and "store (snd (delete_conversation ev cid s)) =
           filter (\<lambda>d. doc_conversation_id d \<noteq> cid) (store s)"
proof -
  have eq: "delete_conversation ev cid s =
           bnd (delete_many ev cid) (\<lambda>deleted_count. ret (deleted_count > 0)) (opened s)"
    unfolding delete_conversation_def by (rule prelude[OF assms(1)])
  have st: "store (opened s) = store s" by simp
  show "fst (delete_conversation ev cid s) = Inr (exchanges_of cid (store s) \<noteq> [])"
    using assms(2) st by (simp add: eq bnd_def delete_many_def ret_def exchanges_of_def)
  show "store (snd (delete_conversation ev cid s)) =
           filter (\<lambda>d. doc_conversation_id d \<noteq> cid) (store s)"
    using assms(2) st by (simp add: eq bnd_def delete_many_def ret_def)
qed

lemma route_404:
  assumes "fst (validate_conversation_id cid)" and "fst (delete_conversation ev cid s) = Inr False"
  shows "fst (route_delete_conversation ev cid s) =
           Inl \<lparr>status_code = 404, detail = Some ''Conversation not found''\<rparr>"
  using assms
  by (cases "validate_conversation_id cid" rule: prod.exhaust;
      cases "delete_conversation ev cid s" rule: prod.exhaust)
     (auto simp: route_delete_conversation_def)

text \<open>
  C8: with the store reachable and the delete itself not failing,
  \<open>delete_conversation\<close> raises nothing; it returns \<open>False\<close> when no exchange is stored
  for the id and \<open>True\<close> otherwise, and afterwards the store holds exactly the
  exchanges of the other conversations. For an id that passes validation, the route
  turns the result \<open>False\<close> into HTTP 404.
\<close>

theorem delete_conversation_result:
  assumes "database s \<noteq> None \<or> connect_fault ev = None" and "delete_fault ev = None"
  shows "fst (delete_conversation ev cid s) = Inr (exchanges_of cid (store s) \<noteq> [])
       \<and> store (snd (delete_conversation ev cid s)) =
           filter (\<lambda>d. doc_conversation_id d \<noteq> cid) (store s)
       \<and> (fst (validate_conversation_id cid) \<and> fst (delete_conversation ev cid s) = Inr False \<longrightarrow>
            fst (route_delete_conversation ev cid s) =
              Inl \<lparr>status_code = 404, detail = Some ''Conversation not found''\<rparr>)"
  using delete_conversation_ok[OF assms] route_404 by blast

theorem delete_conversation_result_witness:
  "fst (delete_conversation env_ok ''c1'' state_two) = Inr True
   \<and> store (snd (delete_conversation env_ok ''c1'' state_two)) = [exchange ''c2'' ''hi'' ''hello'' 15]
   \<and> fst (delete_conversation env_ok ''nope'' state_two) = Inr False
   \<and> store (snd (delete_conversation env_ok ''nope'' state_two)) = store state_two
   \<and> fst (route_delete_conversation env_ok ''nope'' state_two) =
       Inl \<lparr>status_code = 404, detail = Some ''Conversation not found''\<rparr>"
proof -
  have h1: "database state_two \<noteq> None \<or> connect_fault env_ok = None" by (simp add: eval_defs)
  have h2: "delete_fault env_ok = None" by (simp add: eval_defs)
  have v: "fst (validate_conversation_id ''nope'')"
    by (simp add: validate_conversation_id_def re_match_id_def id_char_def)
  show ?thesis
    using delete_conversation_result[OF h1 h2, of "''c1''"]
      delete_conversation_result[OF h1 h2, of "''nope''"] v
    by (simp add: state_two_def exchange_def exchanges_of_def)
qed

section \<open>Listing conversation summaries\<close>

subsection \<open>No exception leaves \<open>get_conversation_summaries\<close>\<close>

lemma summaries_total: "\<exists>xs. fst (get_conversation_summaries ev limit s) = Inr xs"
  unfolding get_conversation_summaries_def try_except_nil_cases
  by (cases "fst (summaries_body ev limit s)") auto

lemma summaries_connected_empty:
  "store s = [] \<Longrightarrow> fst (summaries_connected ev limit s) \<in> {Inr []} \<union> range Inl"
  using get_collection_store[of ev s]
  by (cases "ChatService_get_collection ev s" rule: prod.exhaust)
     (auto simp: summaries_connected_def bnd_def ret_def count_documents_def
      split: option.splits sum.splits prod.splits)

lemma summaries_connected_aggfault:
  "aggregate_fault ev \<noteq> None \<or> limit \<le> 0 \<Longrightarrow>
   fst (summaries_connected ev limit s) \<in> {Inr []} \<union> range Inl"
  by (cases "ChatService_get_collection ev s" rule: prod.exhaust)
     (auto simp: summaries_connected_def bnd_def ret_def count_documents_def aggregate_def
      split: option.splits sum.splits prod.splits)

lemma summaries_body_empty:
  "store s = [] \<Longrightarrow> fst (summaries_body ev limit s) \<in> {Inr []} \<union> range Inl"
  using summaries_connected_empty[of s ev limit]
    summaries_connected_empty[of "snd (connect ev s)" ev limit] connect_store[of ev s]
  by (cases "connect ev s" rule: prod.exhaust)
     (auto simp: summaries_body_def split: option.splits sum.splits prod.splits)

lemma summaries_body_aggfault:
  "aggregate_fault ev \<noteq> None \<or> limit \<le> 0 \<Longrightarrow>
   fst (summaries_body ev limit s) \<in> {Inr []} \<union> range Inl"
  using summaries_connected_aggfault[of ev limit s]
    summaries_connected_aggfault[of ev limit "snd (connect ev s)"]
  by (cases "connect ev s" rule: prod.exhaust)
     (auto simp: summaries_body_def split: option.splits sum.splits prod.splits)

lemma summaries_body_down:
  "database s = None \<Longrightarrow> connect_fault ev \<noteq> None \<Longrightarrow> fst (summaries_body ev limit s) = Inr []"
  by (auto simp: summaries_body_def get_database_def connect_def split: option.splits)

text \<open>
  C3: \<open>get_conversation_summaries\<close> returns a list in every state and whatever the
  storage layer raises; the list is empty when the store is disconnected and the
  reconnection fails, when the store is empty, and when the aggregation raises (by a
  fault of the driver or because the limit is not positive).
\<close>

theorem get_conversation_summaries_never_raises:
  "(\<exists>xs. fst (get_conversation_summaries ev limit s) = Inr xs)
   \<and> (database s = None \<and> connect_fault ev \<noteq> None \<longrightarrow>
        fst (get_conversation_summaries ev limit s) = Inr [])
   \<and> (store s = [] \<longrightarrow> fst (get_conversation_summaries ev limit s) = Inr [])
   \<and> (aggregate_fault ev \<noteq> None \<or> limit \<le> 0 \<longrightarrow>
        fst (get_conversation_summaries ev limit s) = Inr [])"
proof (intro conjI impI)
  show "\<exists>xs. fst (get_conversation_summaries ev limit s) = Inr xs"
    by (rule summaries_total)
next
  assume "database s = None \<and> connect_fault ev \<noteq> None"
  then have "fst (summaries_body ev limit s) = Inr []"
    by (simp add: summaries_body_down)
  then show "fst (get_conversation_summaries ev limit s) = Inr []"
    by (simp add: get_conversation_summaries_def try_except_nil_cases)
next
  assume "store s = []"
  then show "fst (get_conversation_summaries ev limit s) = Inr []"
    unfolding get_conversation_summaries_def
    by (intro swallow_nil summaries_body_empty)
next
  assume "aggregate_fault ev \<noteq> None \<or> limit \<le> 0"
  then show "fst (get_conversation_summaries ev limit s) = Inr []"
    unfolding get_conversation_summaries_def
    by (intro swallow_nil summaries_body_aggfault)
qed

theorem get_conversation_summaries_never_raises_witness:
  "fst (get_conversation_summaries env_down 20 state_disconnected) = Inr []
   \<and> fst (get_conversation_summaries env_ok 20 state_fresh) = Inr []
   \<and> fst (get_conversation_summaries env_aggregate_fails 20 state_two) = Inr []"
  using get_conversation_summaries_never_raises[of env_down 20 state_disconnected]
    get_conversation_summaries_never_raises[of env_ok 20 state_fresh]
    get_conversation_summaries_never_raises[of env_aggregate_fails 20 state_two]
  by (simp add: eval_defs)

subsection \<open>The \<open>$group\<close> stage computes the aggregates\<close>

lemma exchanges_of_snoc:
  "exchanges_of c (ps @ [d]) =
     (if doc_conversation_id d = c then exchanges_of c ps @ [d] else exchanges_of c ps)"
  by (simp add: exchanges_of_def)

lemma exchanges_of_empty_iff:
  "exchanges_of c ps = [] \<longleftrightarrow> c \<notin> doc_conversation_id ` set ps"
  by (auto simp: exchanges_of_def filter_empty_conv)

lemma group_ok_new:
  "doc_conversation_id d \<notin> doc_conversation_id ` set ps \<Longrightarrow> group_ok (ps @ [d]) (new_group d)"
  using exchanges_of_empty_iff[of "doc_conversation_id d" ps]
  by (simp add: group_ok_def new_group_def exchanges_of_snoc)

lemma group_ok_acc:
  assumes "group_ok ps g" and "grp_id g = doc_conversation_id d"
  shows "group_ok (ps @ [d]) (accumulate d g)"
proof -
  let ?m = "exchanges_of (grp_id g) ps"
  from assms(1) have ne: "?m \<noteq> []" by (simp add: group_ok_def Let_def)
  have mn: "Min (insert (doc_created_at d) (doc_created_at ` set ?m)) =
            min (Min (doc_created_at ` set ?m)) (doc_created_at d)"
    using ne by (simp add: min.commute)
  have mx: "Max (insert (doc_timestamp d) (doc_timestamp ` set ?m)) =
            max (Max (doc_timestamp ` set ?m)) (doc_timestamp d)"
    using ne by (simp add: max.commute)
  show ?thesis
    using assms ne mn mx
    by (simp add: group_ok_def accumulate_def exchanges_of_snoc Let_def)
qed

lemma group_ok_other:
  "group_ok ps g \<Longrightarrow> grp_id g \<noteq> doc_conversation_id d \<Longrightarrow> group_ok (ps @ [d]) g"
  by (simp add: group_ok_def exchanges_of_snoc Let_def)

lemma grp_id_accumulate [simp]: "grp_id (accumulate d g) = grp_id g"
  by (simp add: accumulate_def)

lemma grp_id_new_group [simp]: "grp_id (new_group d) = doc_conversation_id d"
  by (simp add: new_group_def)

lemma group_add_ids:
  "map grp_id (group_add d gs) =
     (if doc_conversation_id d \<in> set (map grp_id gs) then map grp_id gs
      else map grp_id gs @ [doc_conversation_id d])"
  by (induction gs) auto

lemma group_add_members:
  "distinct (map grp_id gs) \<Longrightarrow> g' \<in> set (group_add d gs) \<Longrightarrow>
     (g' \<in> set gs \<and> grp_id g' \<noteq> doc_conversation_id d)
   \<or> (g' = new_group d \<and> doc_conversation_id d \<notin> grp_id ` set gs)
   \<or> (\<exists>g\<in>set gs. grp_id g = doc_conversation_id d \<and> g' = accumulate d g)"
proof (induction gs)
  case Nil
  then show ?case by simp
next
  case (Cons g gs)
  show ?case
  proof (cases "grp_id g = doc_conversation_id d")
    case True
    with Cons.prems show ?thesis by (auto simp: image_iff)
  next
    case False
    with Cons show ?thesis by auto
  qed
qed

lemma groups_inv_step:
  assumes "groups_inv ps gs"
  shows "groups_inv (ps @ [d]) (group_add d gs)"
proof -
  from assms have dist: "distinct (map grp_id gs)"
    and ids: "set (map grp_id gs) = doc_conversation_id ` set ps"
    and ok: "\<And>g. g \<in> set gs \<Longrightarrow> group_ok ps g"
    by (auto simp: groups_inv_def list_all_iff)
  have 1: "distinct (map grp_id (group_add d gs))"
    using dist by (simp add: group_add_ids)
  have 2: "set (map grp_id (group_add d gs)) = doc_conversation_id ` set (ps @ [d])"
    using ids by (auto simp: group_add_ids)
  have 3: "group_ok (ps @ [d]) g'" if "g' \<in> set (group_add d gs)" for g'
    using group_add_members[OF dist that]
  proof (elim disjE conjE bexE)
    assume "g' \<in> set gs" "grp_id g' \<noteq> doc_conversation_id d"
    then show ?thesis using ok group_ok_other by blast
  next
    assume "g' = new_group d" "doc_conversation_id d \<notin> grp_id ` set gs"
    then show ?thesis using ids group_ok_new[of d ps] by simp
  next
    fix g assume "g \<in> set gs" "grp_id g = doc_conversation_id d" "g' = accumulate d g"
    then show ?thesis using ok group_ok_acc by blast
  qed
  show ?thesis using 1 2 3 by (simp add: groups_inv_def list_all_iff)
qed

lemma groups_inv_fold:
  "groups_inv ps gs \<Longrightarrow> groups_inv (ps @ ds) (fold group_add ds gs)"
proof (induction ds arbitrary: ps gs)
  case Nil
  then show ?case by simp
next
  case (Cons d ds)
  from Cons.IH[OF groups_inv_step[OF Cons.prems, of d]] show ?case by simp
qed

lemma groups_inv_stage: "groups_inv ds (group_stage ds)"
  using groups_inv_fold[of "[]" "[]" ds] by (simp add: group_stage_def groups_inv_def)

subsection \<open>From the groups to the summaries\<close>

lemma summaries_loop_eq:
  "summaries_loop gs acc = acc @ map to_summary (filter (\<lambda>g. grp_id g \<noteq> []) gs)"
  by (induction gs arbitrary: acc) (simp_all add: to_summary_def)

lemma exchanges_of_sorted:
  "exchanges_of c (sort_key doc_timestamp ds) = sort_key doc_timestamp (exchanges_of c ds)"
  by (simp add: exchanges_of_def filter_sort)

lemma sorted_hd_least:
  "sorted (map f xs) \<Longrightarrow> xs \<noteq> [] \<Longrightarrow> x \<in> set xs \<Longrightarrow> f (hd xs) \<le> f x"
  by (cases xs) auto

lemma sorted_last_greatest:
  "sorted (map f xs) \<Longrightarrow> xs \<noteq> [] \<Longrightarrow> x \<in> set xs \<Longrightarrow> f x \<le> f (last xs)"
proof (induction xs)
  case Nil
  then show ?case by simp
next
  case (Cons y ys)
  then show ?case by (cases ys) auto
qed

lemma group_ok_summary:
  assumes "group_ok (sort_key doc_timestamp ds) g"
  shows "summary_ok ds (to_summary g)"
proof -
  let ?m = "exchanges_of (grp_id g) ds"
  let ?ms = "sort_key doc_timestamp ?m"
  from assms have g: "?ms \<noteq> []" "grp_first_message g = user_message (hd ?ms)"
      "grp_last_message g = user_message (last ?ms)" "grp_message_count g = int (length ?ms)"
      "grp_created_at g = Min (doc_created_at ` set ?ms)"
      "grp_updated_at g = Max (doc_timestamp ` set ?ms)"
    by (simp_all add: group_ok_def exchanges_of_sorted Let_def)
  have srt: "sorted (map doc_timestamp ?ms)" by (rule sorted_sort_key)
  have st: "set ?ms = set ?m" by simp
  have hd_in: "hd ?ms \<in> set ?m" using g(1) hd_in_set[of ?ms] st by blast
  have last_in: "last ?ms \<in> set ?m" using g(1) last_in_set[of ?ms] st by blast
  have least: "\<forall>d'\<in>set ?m. doc_timestamp (hd ?ms) \<le> doc_timestamp d'"
    using sorted_hd_least[OF srt g(1)] st by blast
  have greatest: "\<forall>d'\<in>set ?m. doc_timestamp d' \<le> doc_timestamp (last ?ms)"
    using sorted_last_greatest[OF srt g(1)] st by blast
  show ?thesis
    unfolding summary_ok_def Let_def
    using hd_in last_in least greatest g
    by (auto simp: to_summary_def)
qed

lemma pipeline_groups_set:
  "set (pipeline_groups ds) = set (group_stage (sort_key doc_timestamp ds))"
  by (simp add: pipeline_groups_def)

lemma pipeline_groups_ids_mset:
  "mset (map grp_id (pipeline_groups ds)) =
   mset (map grp_id (group_stage (sort_key doc_timestamp ds)))"
  by (simp add: pipeline_groups_def)

lemma pipeline_groups_Nil [simp]: "pipeline_groups [] = []"
  by (simp add: pipeline_groups_def group_stage_def)

lemma all_summaries_ids:
  "distinct (map summary_conversation_id (all_summaries ds))"
  "set (map summary_conversation_id (all_summaries ds)) = doc_conversation_id ` set ds"
proof -
  have inv: "groups_inv (sort_key doc_timestamp ds) (group_stage (sort_key doc_timestamp ds))"
    by (rule groups_inv_stage)
  have eq: "map summary_conversation_id (all_summaries ds) = map grp_id (pipeline_groups ds)"
    by (simp add: all_summaries_def to_summary_def comp_def)
  have "distinct (map grp_id (group_stage (sort_key doc_timestamp ds)))"
    using inv by (simp add: groups_inv_def)
  then show "distinct (map summary_conversation_id (all_summaries ds))"
    using mset_eq_imp_distinct_iff[OF pipeline_groups_ids_mset[of ds]] by (simp add: eq)
  have "set (map grp_id (pipeline_groups ds)) =
        set (map grp_id (group_stage (sort_key doc_timestamp ds)))"
    by (simp add: pipeline_groups_set)
  also have "\<dots> = doc_conversation_id ` set ds"
    using inv by (simp add: groups_inv_def)
  finally show "set (map summary_conversation_id (all_summaries ds)) = doc_conversation_id ` set ds"
    by (simp add: eq)
qed

lemma all_summaries_ok: "x \<in> set (all_summaries ds) \<Longrightarrow> summary_ok ds x"
proof -
  assume "x \<in> set (all_summaries ds)"
  then obtain g where g: "g \<in> set (group_stage (sort_key doc_timestamp ds))"
    and x: "x = to_summary g"
    by (auto simp: all_summaries_def pipeline_groups_set)
  have "group_ok (sort_key doc_timestamp ds) g"
    using groups_inv_stage[of "sort_key doc_timestamp ds"] g
    by (simp add: groups_inv_def list_all_iff)
  then show ?thesis unfolding x by (rule group_ok_summary)
qed

lemma all_summaries_sorted:
  "sorted_wrt (\<lambda>a b. the (summary_updated_at b) \<le> the (summary_updated_at a)) (all_summaries ds)"
proof -
  have "sorted (map (\<lambda>g. - grp_updated_at g) (pipeline_groups ds))"
    unfolding pipeline_groups_def by (rule sorted_sort_key)
  then have "sorted_wrt (\<lambda>a b. grp_updated_at b \<le> grp_updated_at a) (pipeline_groups ds)"
    by (simp add: sorted_map)
  then show ?thesis
    by (simp add: all_summaries_def sorted_wrt_map to_summary_def)
qed

lemma nonempty_ids_groups:
  assumes "\<forall>d\<in>set ds. doc_conversation_id d \<noteq> []"
  shows "\<forall>g\<in>set (pipeline_groups ds). grp_id g \<noteq> []"
proof
  fix g assume "g \<in> set (pipeline_groups ds)"
  then have "grp_id g \<in> set (map summary_conversation_id (all_summaries ds))"
    by (simp add: all_summaries_def to_summary_def comp_def)
  then have "grp_id g \<in> doc_conversation_id ` set ds"
    unfolding all_summaries_ids(2) .
  with assms show "grp_id g \<noteq> []" by auto
qed

lemma summaries_connected_result:
  assumes "database s \<noteq> None"
    and "count_fault ev = None" and "aggregate_fault ev = None"
    and "\<forall>d\<in>set (store s). doc_conversation_id d \<noteq> []"
  shows "fst (summaries_connected ev limit s) = Inr (take (nat limit) (all_summaries (store s)))
       \<or> (limit \<le> 0 \<and> isl (fst (summaries_connected ev limit s)))"
proof -
  obtain c s' where gc: "ChatService_get_collection ev s = (Inr c, s')" and st: "store s' = store s"
    using get_collection_connected[OF assms(1)] by blast
  have flt: "filter (\<lambda>g. grp_id g \<noteq> []) (take n (pipeline_groups (store s))) =
             take n (pipeline_groups (store s))" for n
  proof -
    have "\<forall>g\<in>set (take n (pipeline_groups (store s))). grp_id g \<noteq> []"
      using nonempty_ids_groups[OF assms(4)] set_take_subset[of n "pipeline_groups (store s)"]
      by blast
    then show ?thesis by simp
  qed
  obtain db where db: "get_database s = Some db"
    using assms(1) by (auto simp: get_database_def)
  have cnt: "count_documents ev s' = (Inr (length (store s)), s')"
    using assms(2) st by (simp add: count_documents_def)
  have sc: "summaries_connected ev limit s =
              (if length (store s) = 0 then (Inr [], s')
               else bnd (aggregate ev limit) (\<lambda>docs. ret (summaries_loop docs [])) s')"
    by (simp add: summaries_connected_def db bnd_def gc cnt ret_def)
  show ?thesis
  proof (cases "store s = []")
    case True
    then show ?thesis by (simp add: sc all_summaries_def)
  next
    case ne: False
    show ?thesis
    proof (cases "limit \<le> 0")
      case True
      then show ?thesis using ne assms(3) by (simp add: sc bnd_def aggregate_def)
    next
      case False
      then have "aggregate ev limit s' = (Inr (take (nat limit) (pipeline_groups (store s))), s')"
        using assms(3) st by (simp add: aggregate_def)
      then have "fst (summaries_connected ev limit s) =
                   Inr (summaries_loop (take (nat limit) (pipeline_groups (store s))) [])"
        using ne by (simp add: sc bnd_def ret_def)
      then show ?thesis
        by (simp add: summaries_loop_eq flt all_summaries_def take_map)
    qed
  qed
qed

lemma summaries_ok_result:
  assumes "database s \<noteq> None \<or> connect_fault ev = None"
    and "count_fault ev = None" and "aggregate_fault ev = None"
    and "\<forall>d\<in>set (store s). doc_conversation_id d \<noteq> []"
  shows "fst (get_conversation_summaries ev limit s) =
           Inr (take (nat limit) (all_summaries (store s)))"
proof -
  have body: "fst (summaries_body ev limit s) = Inr (take (nat limit) (all_summaries (store s)))
       \<or> (limit \<le> 0 \<and> isl (fst (summaries_body ev limit s)))"
  proof (cases "database s")
    case None
    with assms(1) have cf: "connect_fault ev = None" by simp
    let ?s' = "s\<lparr>database := Some MotorDatabase\<rparr>"
    have "summaries_body ev limit s = summaries_connected ev limit ?s'"
      using None cf by (simp add: summaries_body_def get_database_def connect_def)
    moreover have "database ?s' \<noteq> None" "store ?s' = store s" by simp_all
    ultimately show ?thesis
      using summaries_connected_result[of ?s' ev limit] assms(2,3,4) by simp
  next
    case (Some db)
    then have "summaries_body ev limit s = summaries_connected ev limit s"
      by (simp add: summaries_body_def get_database_def)
    then show ?thesis
      using summaries_connected_result[of s ev limit] assms(2,3,4) Some by simp
  qed
  then show ?thesis
    by (cases "fst (summaries_body ev limit s)")
       (auto simp: get_conversation_summaries_def try_except_nil_cases)
qed

text \<open>
  C7: with the store reachable, the count and the aggregation not failing, and every
  stored conversation id non-empty (as every id stored by \<open>send_message\<close> is),
  \<open>get_conversation_summaries\<close> returns the first \<open>limit\<close> entries of a list that is
  sorted by \<open>updated_at\<close> descending and holds exactly one summary for each conversation
  id present in the store. In each summary \<open>first_message\<close> is the user message of an
  exchange of that conversation with the least timestamp, \<open>last_message\<close> that of one
  with the greatest timestamp, \<open>message_count\<close> is the number of exchange documents,
  \<open>created_at\<close> the least \<open>created_at\<close> and \<open>updated_at\<close> the greatest timestamp.
\<close>

theorem get_conversation_summaries_aggregates:
  assumes "database s \<noteq> None \<or> connect_fault ev = None"
    and "count_fault ev = None" and "aggregate_fault ev = None"
    and "\<forall>d\<in>set (store s). doc_conversation_id d \<noteq> []"
  shows "fst (get_conversation_summaries ev limit s) =
           Inr (take (nat limit) (all_summaries (store s)))
       \<and> sorted_wrt (\<lambda>a b. the (summary_updated_at b) \<le> the (summary_updated_at a))
           (all_summaries (store s))
       \<and> distinct (map summary_conversation_id (all_summaries (store s)))
       \<and> set (map summary_conversation_id (all_summaries (store s))) =
           doc_conversation_id ` set (store s)
       \<and> list_all (summary_ok (store s)) (all_summaries (store s))"
proof (intro conjI)
  show "fst (get_conversation_summaries ev limit s) =
          Inr (take (nat limit) (all_summaries (store s)))"
    by (rule summaries_ok_result[OF assms])
  show "sorted_wrt (\<lambda>a b. the (summary_updated_at b) \<le> the (summary_updated_at a))
           (all_summaries (store s))"
    by (rule all_summaries_sorted)
  show "distinct (map summary_conversation_id (all_summaries (store s)))"
    by (rule all_summaries_ids(1))
  show "set (map summary_conversation_id (all_summaries (store s))) =
          doc_conversation_id ` set (store s)"
    by (rule all_summaries_ids(2))
  show "list_all (summary_ok (store s)) (all_summaries (store s))"
    unfolding list_all_iff using all_summaries_ok by blast
qed

theorem get_conversation_summaries_aggregates_witness:
  "fst (get_conversation_summaries env_ok 20 state_two) =
     Inr [\<lparr>summary_conversation_id = ''c1'', first_message = Some ''Why?'',
           last_message = Some ''What is Python?'', summary_message_count = 2,
           summary_created_at = Some 10, summary_updated_at = Some 20\<rparr>,
          \<lparr>summary_conversation_id = ''c2'', first_message = Some ''hi'',
           last_message = Some ''hi'', summary_message_count = 1,
           summary_created_at = Some 15, summary_updated_at = Some 15\<rparr>]
   \<and> fst (get_conversation_summaries env_ok 1 state_two) =
     Inr [\<lparr>summary_conversation_id = ''c1'', first_message = Some ''Why?'',
           last_message = Some ''What is Python?'', summary_message_count = 2,
           summary_created_at = Some 10, summary_updated_at = Some 20\<rparr>]
   \<and> list_all (summary_ok (store state_two)) (all_summaries (store state_two))"
proof -
  have h1: "database state_two \<noteq> None \<or> connect_fault env_ok = None" by (simp add: eval_defs)
  have h2: "count_fault env_ok = None" by (simp add: eval_defs)
  have h3: "aggregate_fault env_ok = None" by (simp add: eval_defs)
  have h4: "\<forall>d\<in>set (store state_two). doc_conversation_id d \<noteq> []" by (simp add: eval_defs)
  have ev: "all_summaries (store state_two) =
     [\<lparr>summary_conversation_id = ''c1'', first_message = Some ''Why?'',
           last_message = Some ''What is Python?'', summary_message_count = 2,
           summary_created_at = Some 10, summary_updated_at = Some 20\<rparr>,
          \<lparr>summary_conversation_id = ''c2'', first_message = Some ''hi'',
           last_message = Some ''hi'', summary_message_count = 1,
           summary_created_at = Some 15, summary_updated_at = Some 15\<rparr>]"
    by (simp add: all_summaries_def pipeline_groups_def group_stage_def to_summary_def
        new_group_def accumulate_def state_two_def exchange_def)
  show ?thesis
    using get_conversation_summaries_aggregates[OF h1 h2 h3 h4, of 20]
      get_conversation_summaries_aggregates[OF h1 h2 h3 h4, of 1]
    by (simp add: ev)
qed

section \<open>Validating a conversation id\<close>

lemma not_id_char_newline: "\<not> id_char (CHR 0x0A)"
  by (simp add: id_char_def)

lemma re_match_id_iff:
  "re_match_id s \<longleftrightarrow>
     (s \<noteq> [] \<and> list_all id_char s) \<or>
     (\<exists>p. s = p @ [CHR 0x0A] \<and> p \<noteq> [] \<and> list_all id_char p)"
proof
  assume m: "re_match_id s"
  let ?t = "takeWhile id_char s" and ?r = "dropWhile id_char s"
  from m have t: "?t \<noteq> []" and r: "?r = [] \<or> ?r = [CHR 0x0A]"
    by (simp_all add: re_match_id_def Let_def)
  have all: "list_all id_char ?t" by (simp add: list_all_iff) (meson set_takeWhileD)
  have s: "s = ?t @ ?r" by simp
  from r show "(s \<noteq> [] \<and> list_all id_char s) \<or>
     (\<exists>p. s = p @ [CHR 0x0A] \<and> p \<noteq> [] \<and> list_all id_char p)"
  proof
    assume "?r = []"
    then have "s = ?t" using s by (metis append_Nil2)
    then show ?thesis using t all by metis
  next
    assume "?r = [CHR 0x0A]"
    then have "s = ?t @ [CHR 0x0A]" using s by metis
    then show ?thesis using t all by blast
  qed
next
  assume "(s \<noteq> [] \<and> list_all id_char s) \<or>
     (\<exists>p. s = p @ [CHR 0x0A] \<and> p \<noteq> [] \<and> list_all id_char p)"
  then show "re_match_id s"
  proof (elim disjE exE conjE)
    assume "s \<noteq> []" "list_all id_char s"
    then show ?thesis
      by (simp add: re_match_id_def Let_def list_all_iff takeWhile_eq_all_conv[THEN iffD2]
          dropWhile_eq_Nil_conv)
  next
    fix p assume p: "s = p @ [CHR 0x0A]" "p \<noteq> []" "list_all id_char p"
    then have "takeWhile id_char s = p" "dropWhile id_char s = [CHR 0x0A]"
      using not_id_char_newline by (simp_all add: list_all_iff takeWhile_append2 dropWhile_append2)
    then show ?thesis using p(2) by (simp add: re_match_id_def Let_def)
  qed
qed

text \<open>What \<open>validate_conversation_id\<close> accepts: the strings of the stated format, and also
  such a string of at most 99 characters followed by one newline.\<close>

lemma validate_conversation_id_iff:
  "fst (validate_conversation_id cid) \<longleftrightarrow>
     spec_valid_conversation_id cid \<or>
     (\<exists>p. cid = p @ [CHR 0x0A] \<and> p \<noteq> [] \<and> list_all id_char p \<and> length cid \<le> 100)"
  by (auto simp: validate_conversation_id_def spec_valid_conversation_id_def re_match_id_iff)

text \<open>
  C9: the code does not do what the claim says. \<open>abc 123\<close> is rejected and
  \<open>abc-123_ok\<close> is accepted, but the id made of \<open>abc\<close> and a newline is accepted too,
  although the newline is not a character of \<open>[a-zA-Z0-9_-]\<close>: in \<open>re.match\<close> the
  anchor \<open>$\<close> also holds just before a final newline.
\<close>

theorem validate_conversation_id_trailing_newline:
  "validate_conversation_id (''abc'' @ [CHR 0x0A]) = (True, None)
   \<and> \<not> spec_valid_conversation_id (''abc'' @ [CHR 0x0A])
   \<and> fst (validate_conversation_id ''abc 123'') = False
   \<and> validate_conversation_id ''abc-123_ok'' = (True, None)"
  by (simp add: validate_conversation_id_def spec_valid_conversation_id_def re_match_id_def
      id_char_def)

end
